theory Spec2Isabelle
  imports Main "HOL-Library.Sublist"
begin

section \<open>JavaScript values as the handlers of server.js see them\<close>

text \<open>
  A request body is whatever the JSON body parser produced, so the handlers work on
  dynamically typed values. Numbers are IEEE doubles in the program; their type is the
  parameter \<open>'n\<close> here and the operations on them are taken from the runtime (below).
  An object holds its own properties as an association list, read with \<open>map_of\<close>.
  Strings are byte strings: text outside ASCII is written as its UTF-8 bytes.
\<close>

datatype 'n jsval =
    JUndefined
  | JNull
  | JBool bool
  | JNum 'n
  | JStr string
  | JArr "'n jsval list"
  | JObj "(string \<times> 'n jsval) list"

text \<open>
  The exceptions that can reach a handler's \<open>catch\<close>: a TypeError raised by the
  language itself, and the rejection of an awaited call to the payment gateway or to the
  mail transport. A rejection carries the value of the thrown error's \<open>message\<close>
  property, which is all the handlers read of it.
\<close>

datatype fault =
    ReadOfNullish string
  | NotAFunction string
  | NotPrimitive
  | InvalidHmacKey

datatype 'n exn = TypeError fault | Rejected "'n jsval"

text \<open>
  What the program takes from Node and its libraries: the HMAC of the \<open>crypto\<close>
  module (key, then message, hex digest), the number formatting of the language, the
  relational operator \<open>v > 0\<close> on an arbitrary operand, and the message text the engine
  gives a TypeError.
\<close>

record 'n runtime =
  hmac_sha256_hex :: "string \<Rightarrow> string \<Rightarrow> string"
  number_to_string :: "'n \<Rightarrow> string"
  number_to_fixed2 :: "'n \<Rightarrow> string"
  number_truthy :: "'n \<Rightarrow> bool"
  greater_than_zero :: "'n jsval \<Rightarrow> 'n exn + bool"
  type_error_message :: "fault \<Rightarrow> string"

type_synonym env = "string \<rightharpoonup> string"

definition bind :: "'e + 'a \<Rightarrow> ('a \<Rightarrow> 'e + 'b) \<Rightarrow> 'e + 'b" where
  "bind m f = (case m of Inl e \<Rightarrow> Inl e | Inr v \<Rightarrow> f v)"

text \<open>
  String conversion, as a template literal applies it to each substitution. An array is
  joined with commas, its undefined and null elements giving the empty string. A parsed
  object has no callable \<open>toString\<close> of its own: it prints as \<open>[object Object]\<close>
  through the inherited one, unless an own property of that name hides it, and then the
  conversion throws.
\<close>

fun to_string :: "'n runtime \<Rightarrow> 'n jsval \<Rightarrow> 'n exn + string"
  and join_elems :: "'n runtime \<Rightarrow> 'n jsval list \<Rightarrow> 'n exn + string" where
  "to_string rt JUndefined = Inr ''undefined''"
| "to_string rt JNull = Inr ''null''"
| "to_string rt (JBool b) = Inr (if b then ''true'' else ''false'')"
| "to_string rt (JNum n) = Inr (number_to_string rt n)"
| "to_string rt (JStr s) = Inr s"
| "to_string rt (JArr xs) = join_elems rt xs"
| "to_string rt (JObj kvs) =
     (if ''toString'' \<in> fst ` set kvs then Inl (TypeError NotPrimitive)
      else Inr ''[object Object]'')"
| "join_elems rt [] = Inr ''''"
| "join_elems rt (x # xs) =
     (case (if x = JUndefined \<or> x = JNull then Inr '''' else to_string rt x) of
        Inl e \<Rightarrow> Inl e
      | Inr s \<Rightarrow>
          (if xs = [] then Inr s
           else (case join_elems rt xs of
                   Inl e \<Rightarrow> Inl e
                 | Inr r \<Rightarrow> Inr (s @ '','' @ r))))"

fun truthy :: "'n runtime \<Rightarrow> 'n jsval \<Rightarrow> bool" where
  "truthy rt JUndefined = False"
| "truthy rt JNull = False"
| "truthy rt (JBool b) = b"
| "truthy rt (JNum n) = number_truthy rt n"
| "truthy rt (JStr s) = (s \<noteq> [])"
| "truthy rt (JArr xs) = True"
| "truthy rt (JObj kvs) = True"

text \<open>
  Reading a data property \<open>v.k\<close>, for the field names the handlers read (none of them
  is inherited from a prototype): undefined and null throw, an object gives its own
  property or undefined, every other value gives undefined.
\<close>

fun get_field :: "'n jsval \<Rightarrow> string \<Rightarrow> 'n exn + 'n jsval" where
  "get_field JUndefined k = Inl (TypeError (ReadOfNullish k))"
| "get_field JNull k = Inl (TypeError (ReadOfNullish k))"
| "get_field (JObj kvs) k = Inr (case map_of kvs k of None \<Rightarrow> JUndefined | Some v \<Rightarrow> v)"
| "get_field v k = Inr JUndefined"

definition env_string :: "env \<Rightarrow> string \<Rightarrow> string" where
  "env_string env k = (case env k of None \<Rightarrow> ''undefined'' | Some s \<Rightarrow> s)"

definition env_value :: "env \<Rightarrow> string \<Rightarrow> 'n jsval" where
  "env_value env k = (case env k of None \<Rightarrow> JUndefined | Some s \<Rightarrow> JStr s)"

definition env_truthy :: "env \<Rightarrow> string \<Rightarrow> bool" where
  "env_truthy env k = (case env k of None \<Rightarrow> False | Some s \<Rightarrow> s \<noteq> [])"

section \<open>Responses, mail and the outside world\<close>

record 'n response =
  status :: nat
  body :: "'n jsval"

record 'n mail =
  from_addr :: string
  to_addr :: "'n jsval"
  subject :: string
  html :: string

text \<open>
  The mail transport answers each \<open>sendMail\<close> call, given the messages already handed
  to it during the request: \<open>None\<close> when the send resolves, \<open>Some m\<close> when it rejects
  with an error whose message is \<open>m\<close>. A handler returns its response together with
  the sends it attempted, in order, each with its outcome. The payment gateway answers an
  order creation with the order (\<open>Inr\<close>) or with the message of its error (\<open>Inl\<close>).
  Calls that never settle are outside the model, and so is console output.
\<close>

type_synonym 'n transport = "'n mail list \<Rightarrow> 'n mail \<Rightarrow> 'n jsval option"

type_synonym 'n sends = "('n mail \<times> 'n jsval option) list"

type_synonym 'n gateway = "'n jsval \<Rightarrow> 'n jsval + 'n jsval"

definition exn_message :: "'n runtime \<Rightarrow> 'n exn \<Rightarrow> 'n jsval" where
  "exn_message rt e =
     (case e of TypeError f \<Rightarrow> JStr (type_error_message rt f) | Rejected m \<Rightarrow> m)"

definition json :: "'n jsval \<Rightarrow> 'n response" where
  "json v = \<lparr>status = 200, body = v\<rparr>"

definition status_json :: "nat \<Rightarrow> 'n jsval \<Rightarrow> 'n response" where
  "status_json c v = \<lparr>status = c, body = v\<rparr>"

section \<open>Startup\<close>

datatype process_state = Exited nat | Uncaught fault | ListenCalled

definition gateway_credentials_missing :: string where
  "gateway_credentials_missing =
     [CHR 0xE2, CHR 0x9D, CHR 0x8C] @
     '' RAZORPAY_KEY_ID or RAZORPAY_SECRET is missing in .env''"

definition email_credentials_missing :: string where
  "email_credentials_missing =
     [CHR 0xE2, CHR 0x9A, CHR 0xA0] @ [CHR 0xEF, CHR 0xB8, CHR 0x8F] @
     '' EMAIL_USER or EMAIL_PASSWORD is missing in .env, emails will not be sent''"

text \<open>
  The two credential checks at the top of the module: what they print on the error
  stream and the exit code, if they end the process.
\<close>

definition credential_checks :: "env \<Rightarrow> string list \<times> nat option" where
  "credential_checks env =
     (if \<not> env_truthy env ''RAZORPAY_KEY_ID'' \<or> \<not> env_truthy env ''RAZORPAY_SECRET''
      then ([gateway_credentials_missing], Some 1)
      else if \<not> env_truthy env ''EMAIL_USER'' \<or> \<not> env_truthy env ''EMAIL_PASSWORD''
      then ([email_credentials_missing], None)
      else ([], None))"

text \<open>
  Module evaluation as a whole. After the checks the three POST routes are registered
  under the prefix \<open>import.meta.env.VITE_BACKEND_URL\<close>; \<open>meta_env\<close> is the value of
  \<open>import.meta.env\<close>, \<open>None\<close> where the host defines none, and reading a property
  of it then throws. The module ends with the call of \<open>app.listen\<close>.
\<close>

definition startup :: "env \<Rightarrow> env option \<Rightarrow> string list \<times> process_state" where
  "startup env meta_env =
     (case credential_checks env of
        (out, Some code) \<Rightarrow> (out, Exited code)
      | (out, None) \<Rightarrow>
          (case meta_env of
             None \<Rightarrow> (out, Uncaught (ReadOfNullish ''VITE_BACKEND_URL''))
           | Some m \<Rightarrow> (out, ListenCalled)))"

section \<open>Order creation\<close>

definition create_order ::
  "'n runtime \<Rightarrow> 'n gateway \<Rightarrow> 'n jsval \<Rightarrow> 'n jsval list \<times> 'n response" where
  "create_order rt gw req_body =
     (let failed = (\<lambda>e. status_json 500
            (JObj [(''error'', JStr ''Failed to create order''),
                   (''details'', exn_message rt e)])) in
      case bind (get_field req_body ''amount'') (\<lambda>amount.
           bind (get_field req_body ''currency'') (\<lambda>currency.
           bind (get_field req_body ''receipt'') (\<lambda>receipt.
           bind (get_field req_body ''customerDetails'') (\<lambda>customerDetails.
           bind (get_field req_body ''cartItems'') (\<lambda>cartItems.
           bind (get_field customerDetails ''fullName'') (\<lambda>fullName.
           bind (get_field customerDetails ''email'') (\<lambda>email.
           bind (get_field customerDetails ''phone'') (\<lambda>phone.
             Inr (JObj [(''amount'', amount),
                        (''currency'', currency),
                        (''receipt'', receipt),
                        (''notes'', JObj [(''customerName'', fullName),
                                          (''customerEmail'', email),
                                          (''customerPhone'', phone)])]))))))))) of
        Inl e \<Rightarrow> ([], failed e)
      | Inr options \<Rightarrow>
          (case gw options of
             Inl m \<Rightarrow> ([options], failed (Rejected m))
           | Inr order \<Rightarrow>
               (case get_field order ''id'' of
                  Inl e \<Rightarrow> ([options], failed e)
                | Inr order_id \<Rightarrow> ([options], json order))))"

section \<open>Payment verification and notification\<close>

definition rupee :: string where
  "rupee = [CHR 0xE2, CHR 0x82, CHR 0xB9]"

text \<open>
  The signature the handler computes: \<open>createHmac\<close> first (it throws on a key that is
  not there), then the template literal over order id and payment id, then the digest.
\<close>

definition generatedSignature ::
  "'n runtime \<Rightarrow> env \<Rightarrow> 'n jsval \<Rightarrow> 'n jsval \<Rightarrow> 'n exn + string" where
  "generatedSignature rt env razorpayOrderId razorpayPaymentId =
     (case env ''RAZORPAY_SECRET'' of
        None \<Rightarrow> Inl (TypeError InvalidHmacKey)
      | Some secret \<Rightarrow>
          bind (to_string rt razorpayOrderId) (\<lambda>order_id.
          bind (to_string rt razorpayPaymentId) (\<lambda>payment_id.
            Inr (hmac_sha256_hex rt secret (order_id @ ''|'' @ payment_id)))))"

text \<open>One cart line, the callback of \<open>cartItems.map\<close>.\<close>

definition item_html :: "'n runtime \<Rightarrow> 'n jsval \<Rightarrow> 'n exn + string" where
  \<open>item_html rt item =
     bind (get_field item ''title'') (\<lambda>title.
     bind (if truthy rt title then Inr title else get_field item ''name'') (\<lambda>label.
     bind (to_string rt label) (\<lambda>label_s.
     bind (get_field item ''price'') (\<lambda>price.
     bind (to_string rt price) (\<lambda>price_s.
     bind (get_field item ''quantity'') (\<lambda>quantity.
     bind (if truthy rt quantity
           then bind (to_string rt quantity) (\<lambda>q. Inr (''x '' @ q))
           else Inr '''') (\<lambda>quantity_s.
       Inr (''\<newline>'' @
            ''            <li>\<newline>'' @
            ''              <strong>'' @
            label_s @
            ''</strong> - \<newline>'' @
            ''              '' @
            rupee @
            price_s @
            '' '' @
            quantity_s @
            ''\<newline>'' @
            ''            </li>\<newline>'' @
            ''          ''))))))))\<close>

fun items_html :: "'n runtime \<Rightarrow> 'n jsval list \<Rightarrow> 'n exn + string" where
  "items_html rt [] = Inr ''''"
| "items_html rt (item # items) =
     (case item_html rt item of
        Inl e \<Rightarrow> Inl e
      | Inr s \<Rightarrow> (case items_html rt items of Inl e \<Rightarrow> Inl e | Inr r \<Rightarrow> Inr (s @ r)))"

text \<open>
  The guard \<open>cartItems && cartItems.length > 0\<close>. An array and a string have a length
  of their own; an object has one only as an own property, compared with 0 by the
  language; any other truthy value has none, and undefined is not greater than 0.
\<close>

definition cart_guard :: "'n runtime \<Rightarrow> 'n jsval \<Rightarrow> 'n exn + bool" where
  "cart_guard rt cartItems =
     (if \<not> truthy rt cartItems then Inr False
      else (case cartItems of
              JArr items \<Rightarrow> Inr (items \<noteq> [])
            | JStr s \<Rightarrow> Inr (s \<noteq> [])
            | JObj kvs \<Rightarrow>
                (case map_of kvs ''length'' of
                   None \<Rightarrow> Inr False
                 | Some v \<Rightarrow> greater_than_zero rt v)
            | _ \<Rightarrow> Inr False))"

definition items_block :: "string \<Rightarrow> string" where
  \<open>items_block lines =
     ''\<newline>'' @
     ''        <h3 style="margin-top: 20px; color: #8e44ad;">Items Purchased:</h3>\<newline>'' @
     ''        <ul style="padding-left: 20px;">\<newline>'' @
     ''          '' @
     lines @
     ''\<newline>'' @
     ''        </ul>\<newline>'' @
     ''      ''\<close>

definition cartItemsHtml :: "'n runtime \<Rightarrow> 'n jsval \<Rightarrow> 'n exn + string" where
  "cartItemsHtml rt cartItems =
     bind (cart_guard rt cartItems) (\<lambda>nonempty.
       if nonempty then
         (case cartItems of
            JArr items \<Rightarrow> bind (items_html rt items) (\<lambda>lines. Inr (items_block lines))
          | _ \<Rightarrow> Inl (TypeError (NotAFunction ''map'')))
       else Inr '''')"

text \<open>\<open>(amount).toFixed(2)\<close>: only a number has the method.\<close>

fun toFixed2 :: "'n runtime \<Rightarrow> 'n jsval \<Rightarrow> 'n exn + string" where
  "toFixed2 rt (JNum n) = Inr (number_to_fixed2 rt n)"
| "toFixed2 rt JUndefined = Inl (TypeError (ReadOfNullish ''toFixed''))"
| "toFixed2 rt JNull = Inl (TypeError (ReadOfNullish ''toFixed''))"
| "toFixed2 rt v = Inl (TypeError (NotAFunction ''toFixed''))"

definition customer_html :: "string \<Rightarrow> string \<Rightarrow> string \<Rightarrow> string \<Rightarrow> string" where
  \<open>customer_html fullName amountFixed paymentId cartHtml =
     ''\<newline>'' @
     ''        <div style="font-family: Arial, sans-serif; max-width: 600px; margin: 0 auto; padding: 20px;">\<newline>'' @
     ''          <h2 style="color: #8e44ad;">Thank you for your booking!</h2>\<newline>'' @
     ''          <p>Dear '' @
     fullName @
     '',</p>\<newline>'' @
     ''          <p>We are pleased to confirm your booking with Mrs. Shereen Life Coaching.</p>\<newline>'' @
     ''          <div style="background-color: #f8f4ff; padding: 15px; border-radius: 5px; margin: 20px 0;">\<newline>'' @
     ''            <h3 style="margin-top: 0; color: #8e44ad;">Booking Details:</h3>\<newline>'' @
     ''            <p><strong>Amount Paid:</strong> '' @
     rupee @
     amountFixed @
     ''</p>\<newline>'' @
     ''            <p><strong>Transaction ID:</strong> '' @
     paymentId @
     ''</p>\<newline>'' @
     ''            '' @
     cartHtml @
     ''\<newline>'' @
     ''          </div>\<newline>'' @
     ''          <p>Mrs. Shereen will contact you within 24 hours on your provided phone number to schedule your session.</p>\<newline>'' @
     ''          <p>Warm regards,<br>The Mrs. Shereen Life Coaching Team</p>\<newline>'' @
     ''        </div>\<newline>'' @
     ''      ''\<close>

definition admin_html ::
  "string \<Rightarrow> string \<Rightarrow> string \<Rightarrow> string \<Rightarrow> string \<Rightarrow> string \<Rightarrow> string" where
  \<open>admin_html fullName email phone amountFixed paymentId cartHtml =
     ''\<newline>'' @
     ''        <div style="font-family: Arial, sans-serif; max-width: 600px; margin: 0 auto; padding: 20px;">\<newline>'' @
     ''          <h2 style="color: #8e44ad;">New Booking Received!</h2>\<newline>'' @
     ''          <div style="background-color: #f8f4ff; padding: 15px; border-radius: 5px; margin: 20px 0;">\<newline>'' @
     ''            <p><strong>Name:</strong> '' @
     fullName @
     ''</p>\<newline>'' @
     ''            <p><strong>Email:</strong> '' @
     email @
     ''</p>\<newline>'' @
     ''            <p><strong>Phone:</strong> '' @
     phone @
     ''</p>\<newline>'' @
     ''            <p><strong>Amount Paid:</strong> '' @
     rupee @
     amountFixed @
     ''</p>\<newline>'' @
     ''            <p><strong>Transaction ID:</strong> '' @
     paymentId @
     ''</p>\<newline>'' @
     ''            '' @
     cartHtml @
     ''\<newline>'' @
     ''          </div>\<newline>'' @
     ''          <p>Please contact the customer within 24 hours to schedule their session.</p>\<newline>'' @
     ''        </div>\<newline>'' @
     ''      ''\<close>

definition mailOptions ::
  "'n runtime \<Rightarrow> env \<Rightarrow> 'n jsval \<Rightarrow> 'n jsval \<Rightarrow> 'n jsval \<Rightarrow> string \<Rightarrow> 'n exn + 'n mail" where
  \<open>mailOptions rt env customerDetails amount razorpayPaymentId cartHtml =
     bind (get_field customerDetails ''email'') (\<lambda>email.
     bind (get_field customerDetails ''fullName'') (\<lambda>fullName.
     bind (to_string rt fullName) (\<lambda>fullName_s.
     bind (toFixed2 rt amount) (\<lambda>amountFixed.
     bind (to_string rt razorpayPaymentId) (\<lambda>paymentId_s.
       Inr \<lparr>from_addr = ''"Mrs. Shereen Life Coaching" <'' @ env_string env ''EMAIL_USER'' @ ''>'',
            to_addr = email,
            subject = ''Booking Confirmation - Mrs. Shereen Life Coaching'',
            html = customer_html fullName_s amountFixed paymentId_s cartHtml\<rparr>)))))\<close>

definition adminMailOptions ::
  "'n runtime \<Rightarrow> env \<Rightarrow> 'n jsval \<Rightarrow> 'n jsval \<Rightarrow> 'n jsval \<Rightarrow> string \<Rightarrow> 'n exn + 'n mail" where
  \<open>adminMailOptions rt env customerDetails amount razorpayPaymentId cartHtml =
     bind (get_field customerDetails ''fullName'') (\<lambda>fullName.
     bind (to_string rt fullName) (\<lambda>fullName_s.
     bind (get_field customerDetails ''email'') (\<lambda>email.
     bind (to_string rt email) (\<lambda>email_s.
     bind (get_field customerDetails ''phone'') (\<lambda>phone.
     bind (to_string rt phone) (\<lambda>phone_s.
     bind (toFixed2 rt amount) (\<lambda>amountFixed.
     bind (to_string rt razorpayPaymentId) (\<lambda>paymentId_s.
       Inr \<lparr>from_addr = ''"Mrs. Shereen Booking System" <'' @ env_string env ''EMAIL_USER'' @ ''>'',
            to_addr = env_value env ''EMAIL_USER'',
            subject = ''New Booking Alert - Life Coaching'',
            html = admin_html fullName_s email_s phone_s amountFixed paymentId_s cartHtml\<rparr>))))))))\<close>

definition invalid_signature :: "'n response" where
  "invalid_signature =
     status_json 400 (JObj [(''success'', JBool False), (''message'', JStr ''Invalid signature'')])"

definition verification_failed :: "'n runtime \<Rightarrow> 'n exn \<Rightarrow> 'n response" where
  "verification_failed rt e =
     status_json 500 (JObj [(''success'', JBool False),
                            (''error'', JStr ''Payment verification failed''),
                            (''details'', exn_message rt e)])"

text \<open>
  The fields the handler takes out of the request body, in the order of the source:
  payment id, order id, signature, customer details, cart items, amount.
\<close>

definition payment_fields ::
  "'n jsval \<Rightarrow> 'n exn + 'n jsval \<times> 'n jsval \<times> 'n jsval \<times> 'n jsval \<times> 'n jsval \<times> 'n jsval" where
  "payment_fields req_body =
     bind (get_field req_body ''razorpayPaymentId'') (\<lambda>razorpayPaymentId.
     bind (get_field req_body ''razorpayOrderId'') (\<lambda>razorpayOrderId.
     bind (get_field req_body ''razorpaySignature'') (\<lambda>razorpaySignature.
     bind (get_field req_body ''customerDetails'') (\<lambda>customerDetails.
     bind (get_field req_body ''cartItems'') (\<lambda>cartItems.
     bind (get_field req_body ''amount'') (\<lambda>amount.
       Inr (razorpayPaymentId, razorpayOrderId, razorpaySignature,
            customerDetails, cartItems, amount)))))))"

text \<open>
  The first part of the handler on its own, up to the signature test: the fields are
  read, the digest is computed, and the request is accepted (\<open>True\<close>) when the test
  \<open>generatedSignature !== razorpaySignature\<close> fails. The test is a strict inequality,
  so a supplied signature that is not a string never matches.
\<close>

definition signature_decision :: "'n runtime \<Rightarrow> env \<Rightarrow> 'n jsval \<Rightarrow> 'n exn + bool" where
  "signature_decision rt env req_body =
     bind (payment_fields req_body)
       (\<lambda>(razorpayPaymentId, razorpayOrderId, razorpaySignature,
           customerDetails, cartItems, amount).
     bind (generatedSignature rt env razorpayOrderId razorpayPaymentId) (\<lambda>generated.
       Inr (\<not> (JStr generated \<noteq> razorpaySignature))))"

text \<open>
  The handler as a whole. Each of the two sends sits in a \<open>try\<close> of its own whose
  \<open>catch\<close> only logs; everything else is under the outer \<open>try\<close>, whose \<open>catch\<close>
  answers 500.
\<close>

definition payment_success ::
  "'n runtime \<Rightarrow> env \<Rightarrow> 'n transport \<Rightarrow> 'n jsval \<Rightarrow> 'n sends \<times> 'n response" where
  "payment_success rt env transporter req_body =
     (case payment_fields req_body of
        Inl e \<Rightarrow> ([], verification_failed rt e)
      | Inr (razorpayPaymentId, razorpayOrderId, razorpaySignature,
             customerDetails, cartItems, amount) \<Rightarrow>
     (case generatedSignature rt env razorpayOrderId razorpayPaymentId of
        Inl e \<Rightarrow> ([], verification_failed rt e)
      | Inr generated \<Rightarrow>
     if JStr generated \<noteq> razorpaySignature then ([], invalid_signature)
     else
     (case cartItemsHtml rt cartItems of
        Inl e \<Rightarrow> ([], verification_failed rt e)
      | Inr cartHtml \<Rightarrow>
     (case mailOptions rt env customerDetails amount razorpayPaymentId cartHtml of
        Inl e \<Rightarrow> ([], verification_failed rt e)
      | Inr customer_mail \<Rightarrow>
     (let customer_sent = (customer_mail, transporter [] customer_mail) in
      case adminMailOptions rt env customerDetails amount razorpayPaymentId cartHtml of
        Inl e \<Rightarrow> ([customer_sent], verification_failed rt e)
      | Inr admin_mail \<Rightarrow>
     (let admin_sent = (admin_mail, transporter [customer_mail] admin_mail) in
      ([customer_sent, admin_sent], json (JObj [(''success'', JBool True)]))))))))"

section \<open>Contact form\<close>

text \<open>\<open>message.replace(/\n/g, '<br>')\<close> on a string: every line feed becomes the tag.\<close>

fun replace_newlines :: "string \<Rightarrow> string" where
  "replace_newlines [] = []"
| "replace_newlines (c # cs) =
     (if c = CHR 0x0A then ''<br>'' @ replace_newlines cs else c # replace_newlines cs)"

fun message_replace :: "'n jsval \<Rightarrow> 'n exn + string" where
  "message_replace (JStr s) = Inr (replace_newlines s)"
| "message_replace JUndefined = Inl (TypeError (ReadOfNullish ''replace''))"
| "message_replace JNull = Inl (TypeError (ReadOfNullish ''replace''))"
| "message_replace v = Inl (TypeError (NotAFunction ''replace''))"

definition contact_html :: "string \<Rightarrow> string \<Rightarrow> string \<Rightarrow> string \<Rightarrow> string" where
  \<open>contact_html name email subj messageHtml =
     ''\<newline>'' @
     ''        <div style="font-family: Arial, sans-serif; max-width: 600px; margin: 0 auto; padding: 20px;">\<newline>'' @
     ''          <h2 style="color: #8e44ad;">New Contact Form Submission</h2>\<newline>'' @
     ''          <div style="background-color: #f8f4ff; padding: 15px; border-radius: 5px; margin: 20px 0;">\<newline>'' @
     ''            <p><strong>Name:</strong> '' @
     name @
     ''</p>\<newline>'' @
     ''            <p><strong>Email:</strong> '' @
     email @
     ''</p>\<newline>'' @
     ''            <p><strong>Subject:</strong> '' @
     subj @
     ''</p>\<newline>'' @
     ''            <p><strong>Message:</strong></p>\<newline>'' @
     ''            <div style="background-color: white; padding: 15px; border-radius: 5px;">\<newline>'' @
     ''              '' @
     messageHtml @
     ''\<newline>'' @
     ''            </div>\<newline>'' @
     ''          </div>\<newline>'' @
     ''        </div>\<newline>'' @
     ''      ''\<close>

definition confirmation_html :: "string \<Rightarrow> string \<Rightarrow> string \<Rightarrow> string" where
  \<open>confirmation_html name subj messageHtml =
     ''\<newline>'' @
     ''        <div style="font-family: Arial, sans-serif; max-width: 600px; margin: 0 auto; padding: 20px;">\<newline>'' @
     ''          <h2 style="color: #8e44ad;">Thank You for Your Message</h2>\<newline>'' @
     ''          <p>Dear '' @
     name @
     '',</p>\<newline>'' @
     ''          <p>Thank you for reaching out to Mrs. Shereen Life Coaching. I have received your message and will get back to you shortly.</p>\<newline>'' @
     ''          <p>Here\'s a copy of your message:</p>\<newline>'' @
     ''          <div style="background-color: #f8f4ff; padding: 15px; border-radius: 5px; margin: 20px 0;">\<newline>'' @
     ''            <p><strong>Subject:</strong> '' @
     subj @
     ''</p>\<newline>'' @
     ''            <p><strong>Message:</strong></p>\<newline>'' @
     ''            <div style="background-color: white; padding: 15px; border-radius: 5px;">\<newline>'' @
     ''              '' @
     messageHtml @
     ''\<newline>'' @
     ''            </div>\<newline>'' @
     ''          </div>\<newline>'' @
     ''          <p>Warm regards,<br>Mrs. Shereen</p>\<newline>'' @
     ''        </div>\<newline>'' @
     ''      ''\<close>

definition contactMailOptions ::
  "'n runtime \<Rightarrow> env \<Rightarrow> 'n jsval \<Rightarrow> 'n jsval \<Rightarrow> 'n jsval \<Rightarrow> 'n jsval \<Rightarrow> 'n exn + 'n mail" where
  \<open>contactMailOptions rt env name email subj message =
     bind (to_string rt subj) (\<lambda>subject_line.
     bind (to_string rt name) (\<lambda>name_s.
     bind (to_string rt email) (\<lambda>email_s.
     bind (to_string rt subj) (\<lambda>subject_s.
     bind (message_replace message) (\<lambda>messageHtml.
       Inr \<lparr>from_addr = ''"Contact Form" <'' @ env_string env ''EMAIL_USER'' @ ''>'',
            to_addr = env_value env ''EMAIL_USER'',
            subject = ''New Contact Form: '' @ subject_line,
            html = contact_html name_s email_s subject_s messageHtml\<rparr>)))))\<close>

definition userConfirmationOptions ::
  "'n runtime \<Rightarrow> env \<Rightarrow> 'n jsval \<Rightarrow> 'n jsval \<Rightarrow> 'n jsval \<Rightarrow> 'n jsval \<Rightarrow> 'n exn + 'n mail" where
  \<open>userConfirmationOptions rt env name email subj message =
     bind (to_string rt name) (\<lambda>name_s.
     bind (to_string rt subj) (\<lambda>subject_s.
     bind (message_replace message) (\<lambda>messageHtml.
       Inr \<lparr>from_addr = ''"Mrs. Shereen Life Coaching" <'' @ env_string env ''EMAIL_USER'' @ ''>'',
            to_addr = email,
            subject = ''Thank You for Contacting Mrs. Shereen'',
            html = confirmation_html name_s subject_s messageHtml\<rparr>)))\<close>

definition contact_failed :: "'n runtime \<Rightarrow> 'n exn \<Rightarrow> 'n response" where
  "contact_failed rt e =
     status_json 500 (JObj [(''success'', JBool False),
                            (''message'', JStr ''Failed to send message''),
                            (''details'', exn_message rt e)])"

definition contact_fields ::
  "'n jsval \<Rightarrow> 'n exn + 'n jsval \<times> 'n jsval \<times> 'n jsval \<times> 'n jsval" where
  "contact_fields req_body =
     bind (get_field req_body ''name'') (\<lambda>name.
     bind (get_field req_body ''email'') (\<lambda>email.
     bind (get_field req_body ''subject'') (\<lambda>subj.
     bind (get_field req_body ''message'') (\<lambda>message.
       Inr (name, email, subj, message)))))"

text \<open>
  The handler: both messages are built, then the two sends are awaited one after the
  other under the one \<open>try\<close>, so a rejected send goes to the \<open>catch\<close> at once.
\<close>

definition contact ::
  "'n runtime \<Rightarrow> env \<Rightarrow> 'n transport \<Rightarrow> 'n jsval \<Rightarrow> 'n sends \<times> 'n response" where
  "contact rt env transporter req_body =
     (case contact_fields req_body of
        Inl e \<Rightarrow> ([], contact_failed rt e)
      | Inr (name, email, subj, message) \<Rightarrow>
     (case contactMailOptions rt env name email subj message of
        Inl e \<Rightarrow> ([], contact_failed rt e)
      | Inr admin_mail \<Rightarrow>
     (case userConfirmationOptions rt env name email subj message of
        Inl e \<Rightarrow> ([], contact_failed rt e)
      | Inr user_mail \<Rightarrow>
     (case transporter [] admin_mail of
        Some m \<Rightarrow> ([(admin_mail, Some m)], contact_failed rt (Rejected m))
      | None \<Rightarrow>
     (case transporter [admin_mail] user_mail of
        Some m \<Rightarrow>
          ([(admin_mail, None), (user_mail, Some m)], contact_failed rt (Rejected m))
      | None \<Rightarrow>
          ([(admin_mail, None), (user_mail, None)],
           json (JObj [(''success'', JBool True),
                       (''message'', JStr ''Message sent successfully!'')])))))))"

section \<open>Lines of text\<close>

text \<open>
  Splitting a text at a separator character and joining pieces with a separator string:
  the vocabulary in which the replacement of line feeds is stated.
\<close>

fun split_on :: "char \<Rightarrow> string \<Rightarrow> string list" where
  "split_on c [] = [[]]"
| "split_on c (x # xs) =
     (if x = c then [] # split_on c xs
      else (x # hd (split_on c xs)) # tl (split_on c xs))"

fun joined :: "string \<Rightarrow> string list \<Rightarrow> string" where
  "joined sep [] = []"
| "joined sep [l] = l"
| "joined sep (l # l' # ls) = l @ sep @ joined sep (l' # ls)"

section \<open>A concrete runtime and concrete requests\<close>

text \<open>
  For evaluating the model at concrete requests: numbers are whole and not negative,
  written as their decimal text; the digest is a transparent stand-in for HMAC-SHA256;
  the comparison with 0 is given for numbers and booleans, which is all the requests
  below could need.
\<close>

definition example_runtime :: "string runtime" where
  "example_runtime =
     \<lparr>hmac_sha256_hex = (\<lambda>key msg. ''hmac('' @ key @ '','' @ msg @ '')''),
      number_to_string = (\<lambda>n. n),
      number_to_fixed2 = (\<lambda>n. n @ ''.00''),
      number_truthy = (\<lambda>n. n \<noteq> ''0''),
      greater_than_zero =
        (\<lambda>v. case v of JNum n \<Rightarrow> Inr (n \<noteq> ''0'') | JBool b \<Rightarrow> Inr b | _ \<Rightarrow> Inr False),
      type_error_message = (\<lambda>f. ''TypeError'')\<rparr>"

definition example_env :: env where
  "example_env =
     [''RAZORPAY_KEY_ID'' \<mapsto> ''rzp_test_1'', ''RAZORPAY_SECRET'' \<mapsto> ''s'',
      ''EMAIL_USER'' \<mapsto> ''coach@example.org'', ''EMAIL_PASSWORD'' \<mapsto> ''pw'']"

definition example_customer :: "string jsval" where
  "example_customer =
     JObj [(''fullName'', JStr ''Asha''), (''email'', JStr ''asha@example.org''),
           (''phone'', JStr ''555'')]"

definition example_payment :: "string jsval \<Rightarrow> string jsval \<Rightarrow> string jsval \<Rightarrow> string jsval" where
  "example_payment signature cart amount =
     JObj [(''razorpayPaymentId'', JStr ''pay_1''),
           (''razorpayOrderId'', JStr ''order_1''),
           (''razorpaySignature'', signature),
           (''customerDetails'', example_customer),
           (''cartItems'', cart),
           (''amount'', amount)]"

definition example_digest :: string where
  "example_digest = ''hmac(s,order_1|pay_1)''"

definition always_sent :: "string transport" where
  "always_sent history m = None"

definition always_rejected :: "string transport" where
  "always_rejected history m = Some (JStr ''connect ECONNREFUSED'')"

definition example_contact :: "string jsval" where
  "example_contact =
     JObj [(''name'', JStr ''Asha''), (''email'', JStr ''asha@example.org''),
           (''subject'', JStr ''Hello''), (''message'', JStr ''one\<newline>two'')]"


definition example_item :: "string jsval" where
  "example_item =
     JObj [(''title'', JStr ''Session''), (''price'', JNum ''500''), (''quantity'', JNum ''2'')]"

definition example_order_request :: "string jsval" where
  "example_order_request =
     JObj [(''amount'', JNum ''50000''), (''currency'', JStr ''INR''),
           (''receipt'', JStr ''rcpt_1''), (''customerDetails'', example_customer)]"

definition example_gateway :: "string gateway" where
  "example_gateway options =
     Inr (JObj [(''id'', JStr ''order_1''), (''entity'', JStr ''order''),
                (''status'', JStr ''created'')])"

definition example_section :: string where
  \<open>example_section =
     ''\<newline>'' @
     ''        <h3 style="margin-top: 20px; color: #8e44ad;">Items Purchased:</h3>\<newline>'' @
     ''        <ul style="padding-left: 20px;">\<newline>'' @
     ''          '' @
     ''\<newline>'' @
     ''            <li>\<newline>'' @
     ''              <strong>Session</strong> - \<newline>'' @
     ''              '' @ [CHR 0xE2, CHR 0x82, CHR 0xB9] @ ''500 x 2\<newline>'' @
     ''            </li>\<newline>'' @
     ''          '' @
     ''\<newline>'' @
     ''        </ul>\<newline>'' @
     ''      ''\<close>

definition example_injected_payment :: "string jsval" where
  "example_injected_payment =
     JObj [(''razorpayPaymentId'', JStr ''pay_1''),
           (''razorpayOrderId'', JStr ''order_1''),
           (''razorpaySignature'', JStr example_digest),
           (''customerDetails'',
              JObj [(''fullName'', JStr example_section),
                    (''email'', JStr ''asha@example.org''),
                    (''phone'', JStr ''555'')]),
           (''cartItems'', JArr []),
           (''amount'', JNum ''500'')]"

definition example_env_without_mail :: env where
  "example_env_without_mail =
     [''RAZORPAY_KEY_ID'' \<mapsto> ''rzp_test_1'', ''RAZORPAY_SECRET'' \<mapsto> ''s'']"

section \<open>Basic facts\<close>

lemma bind_simps [simp]:
  "bind (Inl e) f = Inl e"
  "bind (Inr v) f = f v"
  by (simp_all add: bind_def)

lemma bind_eq_Inr:
  "bind m f = Inr y \<longleftrightarrow> (\<exists>v. m = Inr v \<and> f v = Inr y)"
  by (cases m) simp_all

lemma get_field_total:
  "v \<noteq> JUndefined \<Longrightarrow> v \<noteq> JNull \<Longrightarrow> \<exists>x. get_field v k = Inr x"
  by (cases v) auto

lemma get_field_Inr_nonnullish:
  "get_field v k = Inr x \<Longrightarrow> v \<noteq> JUndefined \<and> v \<noteq> JNull"
  by (cases v) auto

lemma payment_fields_Inr:
  "payment_fields b = Inr (pid, oid, sg, cd, items, amount) \<longleftrightarrow>
     get_field b ''razorpayPaymentId'' = Inr pid \<and>
     get_field b ''razorpayOrderId'' = Inr oid \<and>
     get_field b ''razorpaySignature'' = Inr sg \<and>
     get_field b ''customerDetails'' = Inr cd \<and>
     get_field b ''cartItems'' = Inr items \<and>
     get_field b ''amount'' = Inr amount"
  by (auto simp: payment_fields_def bind_eq_Inr)

lemma status_simps [simp]:
  "status (invalid_signature :: 'n response) = 400"
  "status (verification_failed rt e) = 500"
  "status (contact_failed rt e) = 500"
  "status (json v) = 200"
  by (simp_all add: invalid_signature_def verification_failed_def contact_failed_def
        json_def status_json_def)

lemma payment_success_status_400:
  "status (snd (payment_success rt env tr b)) = 400 \<longleftrightarrow> signature_decision rt env b = Inr False"
  by (auto simp: payment_success_def signature_decision_def Let_def
           split: sum.splits prod.splits)

lemma example_payment_fields:
  "payment_fields (example_payment sg cart amount) =
     Inr (JStr ''pay_1'', JStr ''order_1'', sg, example_customer, cart, amount)"
  by (simp add: payment_fields_def example_payment_def)

lemma example_generatedSignature:
  "generatedSignature example_runtime example_env (JStr ''order_1'') (JStr ''pay_1'') =
     Inr example_digest"
  by (simp add: generatedSignature_def example_runtime_def example_env_def example_digest_def)

section \<open>The signature check\<close>

text \<open>
  C1. With order id and payment id strings and the secret configured, the digest the
  handler computes is the hex HMAC-SHA256, under the secret, of the order id, a pipe and
  the payment id, in that order. The request is accepted exactly when the supplied
  signature is that string: the handler answers 400 if and only if the supplied value
  differs from it (so also when it differs in a single character, or is no string).
\<close>

theorem signature_accepted_iff_exact_digest:
  assumes "get_field req_body ''razorpayOrderId'' = Inr (JStr orderId)"
    and "get_field req_body ''razorpayPaymentId'' = Inr (JStr paymentId)"
    and "get_field req_body ''razorpaySignature'' = Inr supplied"
    and "env ''RAZORPAY_SECRET'' = Some secret"
  shows "generatedSignature rt env (JStr orderId) (JStr paymentId) =
           Inr (hmac_sha256_hex rt secret (orderId @ ''|'' @ paymentId))
         \<and> signature_decision rt env req_body =
           Inr (supplied = JStr (hmac_sha256_hex rt secret (orderId @ ''|'' @ paymentId)))
         \<and> (status (snd (payment_success rt env transporter req_body)) = 400 \<longleftrightarrow>
              supplied \<noteq> JStr (hmac_sha256_hex rt secret (orderId @ ''|'' @ paymentId)))"
proof -
  let ?d = "hmac_sha256_hex rt secret (orderId @ ''|'' @ paymentId)"
  have gen: "generatedSignature rt env (JStr orderId) (JStr paymentId) = Inr ?d"
    using assms(4) by (simp add: generatedSignature_def)
  from assms(1) have nn: "req_body \<noteq> JUndefined" "req_body \<noteq> JNull"
    using get_field_Inr_nonnullish by blast+
  obtain cd where cd: "get_field req_body ''customerDetails'' = Inr cd"
    using get_field_total [OF nn] by blast
  obtain items where items: "get_field req_body ''cartItems'' = Inr items"
    using get_field_total [OF nn] by blast
  obtain amount where amount: "get_field req_body ''amount'' = Inr amount"
    using get_field_total [OF nn] by blast
  have fields: "payment_fields req_body =
      Inr (JStr paymentId, JStr orderId, supplied, cd, items, amount)"
    using assms(1-3) cd items amount by (simp add: payment_fields_Inr)
  have dec: "signature_decision rt env req_body = Inr (supplied = JStr ?d)"
    using fields gen by (auto simp: signature_decision_def)
  show ?thesis
    using gen dec by (simp add: payment_success_status_400)
qed

theorem signature_accepted_iff_exact_digest_witness:
  "signature_decision example_runtime example_env
     (example_payment (JStr ''hmac(s,order_1|pay_1)'') JUndefined (JNum ''500'')) = Inr True
   \<and> status (snd (payment_success example_runtime example_env always_sent
        (example_payment (JStr ''hmac(s,order_1|pay_2)'') JUndefined (JNum ''500'')))) = 400"
  using signature_accepted_iff_exact_digest [of
      "example_payment (JStr ''hmac(s,order_1|pay_1)'') JUndefined (JNum ''500'')"
      "''order_1''" "''pay_1''" "JStr ''hmac(s,order_1|pay_1)''"
      example_env "''s''" example_runtime always_sent]
    signature_accepted_iff_exact_digest [of
      "example_payment (JStr ''hmac(s,order_1|pay_2)'') JUndefined (JNum ''500'')"
      "''order_1''" "''pay_1''" "JStr ''hmac(s,order_1|pay_2)''"
      example_env "''s''" example_runtime always_sent]
  by (simp add: example_runtime_def example_env_def example_payment_def)

text \<open>
  C2. When the fields of the request are read and the digest is computed, a supplied
  signature different from the digest gets the answer 400 with the body
  \<open>{success: false, message: "Invalid signature"}\<close>, and no send is attempted: the list
  of sends is empty, whatever the transport would have answered.
\<close>

theorem mismatch_rejected_without_mail:
  assumes "payment_fields req_body =
             Inr (razorpayPaymentId, razorpayOrderId, razorpaySignature,
                  customerDetails, cartItems, amount)"
    and "generatedSignature rt env razorpayOrderId razorpayPaymentId = Inr digest"
    and "razorpaySignature \<noteq> JStr digest"
  shows "payment_success rt env transporter req_body =
           ([], \<lparr>status = 400,
                 body = JObj [(''success'', JBool False),
                              (''message'', JStr ''Invalid signature'')]\<rparr>)"
  using assms
  by (auto simp: payment_success_def invalid_signature_def status_json_def)

theorem mismatch_rejected_without_mail_witness:
  "payment_success example_runtime example_env always_sent
     (example_payment (JStr ''forged'') JUndefined (JNum ''500'')) =
     ([], \<lparr>status = 400,
           body = JObj [(''success'', JBool False), (''message'', JStr ''Invalid signature'')]\<rparr>)"
  by (rule mismatch_rejected_without_mail
        [OF example_payment_fields example_generatedSignature])
     (simp add: example_digest_def)

text \<open>
  C5. Two requests that agree on order id, payment id and signature get the same
  decision from the signature check under the same secret, whatever else they carry
  (amount, cart items, customer details) and whatever the mail transport does: the one
  is answered 400 exactly when the other is.
\<close>

theorem decision_independent_of_amount_and_cart:
  assumes "get_field b1 ''razorpayOrderId'' = get_field b2 ''razorpayOrderId''"
    and "get_field b1 ''razorpayPaymentId'' = get_field b2 ''razorpayPaymentId''"
    and "get_field b1 ''razorpaySignature'' = get_field b2 ''razorpaySignature''"
  shows "signature_decision rt env b1 = signature_decision rt env b2
         \<and> (status (snd (payment_success rt env tr1 b1)) = 400 \<longleftrightarrow>
            status (snd (payment_success rt env tr2 b2)) = 400)"
proof -
  have "signature_decision rt env b1 = signature_decision rt env b2"
  proof (cases "b1 = JUndefined \<or> b1 = JNull")
    case True
    then have "b2 = JUndefined \<or> b2 = JNull"
      using assms(1) by (cases b2) auto
    with True show ?thesis
      by (auto simp: signature_decision_def payment_fields_def)
  next
    case False
    then have nn2: "b2 \<noteq> JUndefined" "b2 \<noteq> JNull"
      using assms(1) by (cases b1; auto)+
    from False have nn1: "b1 \<noteq> JUndefined" "b1 \<noteq> JNull" by auto
    obtain p o' s where f1: "get_field b1 ''razorpayPaymentId'' = Inr p"
      "get_field b1 ''razorpayOrderId'' = Inr o'" "get_field b1 ''razorpaySignature'' = Inr s"
      using get_field_total [OF nn1] by metis
    obtain c1 i1 a1 where r1: "get_field b1 ''customerDetails'' = Inr c1"
      "get_field b1 ''cartItems'' = Inr i1" "get_field b1 ''amount'' = Inr a1"
      using get_field_total [OF nn1] by metis
    obtain c2 i2 a2 where r2: "get_field b2 ''customerDetails'' = Inr c2"
      "get_field b2 ''cartItems'' = Inr i2" "get_field b2 ''amount'' = Inr a2"
      using get_field_total [OF nn2] by metis
    have "payment_fields b1 = Inr (p, o', s, c1, i1, a1)"
      using f1 r1 by (simp add: payment_fields_Inr)
    moreover have "payment_fields b2 = Inr (p, o', s, c2, i2, a2)"
      using f1 r2 assms by (simp add: payment_fields_Inr)
    ultimately show ?thesis
      by (simp add: signature_decision_def)
  qed
  then show ?thesis
    by (simp add: payment_success_status_400)
qed

theorem decision_independent_of_amount_and_cart_witness:
  "signature_decision example_runtime example_env
      (example_payment (JStr example_digest) (JArr [example_item]) (JNum ''1'')) = Inr True
   \<and> status (snd (payment_success example_runtime example_env always_rejected
          (example_payment (JStr example_digest) (JArr [example_item]) (JNum ''1'')))) \<noteq> 400"
proof -
  let ?b1 = "example_payment (JStr example_digest) JUndefined (JNum ''500'')"
  let ?b2 = "example_payment (JStr example_digest) (JArr [example_item]) (JNum ''1'')"
  have same: "get_field ?b1 k = get_field ?b2 k"
    if "k \<in> {''razorpayOrderId'', ''razorpayPaymentId'', ''razorpaySignature''}" for k
    using that by (auto simp: example_payment_def)
  have accepted: "signature_decision example_runtime example_env ?b1 = Inr True"
    by (simp add: signature_decision_def example_payment_fields example_generatedSignature)
  then have "status (snd (payment_success example_runtime example_env always_sent ?b1)) \<noteq> 400"
    by (simp add: payment_success_status_400)
  with accepted
    decision_independent_of_amount_and_cart
      [of ?b1 ?b2 example_runtime example_env always_sent always_rejected]
    same
  show ?thesis
    by simp
qed

section \<open>After the signature check\<close>

lemma toFixed2_non_number:
  "(\<forall>n. amount \<noteq> JNum n) \<Longrightarrow> \<exists>f. toFixed2 rt amount = Inl (TypeError f)"
  by (cases amount) auto

lemma mailOptions_needs_number:
  "toFixed2 rt amount = Inl x \<Longrightarrow> \<exists>e. mailOptions rt env cd amount pid ch = Inl e"
  by (cases "get_field cd ''email''"; cases "get_field cd ''fullName''";
      cases "to_string rt (projr (get_field cd ''fullName''))")
     (auto simp: mailOptions_def)

lemma example_cart_empty:
  "cartItemsHtml example_runtime JUndefined = Inr ''''"
  by (simp add: cartItemsHtml_def cart_guard_def)

lemma example_mailOptions:
  "\<exists>m. mailOptions example_runtime example_env example_customer (JNum ''500'')
          (JStr ''pay_1'') block = Inr m"
  by (simp add: mailOptions_def example_customer_def example_runtime_def)

lemma example_adminMailOptions:
  "\<exists>m. adminMailOptions example_runtime example_env example_customer (JNum ''500'')
          (JStr ''pay_1'') block = Inr m"
  by (simp add: adminMailOptions_def example_customer_def example_runtime_def)

lemma payment_success_built:
  assumes "payment_fields b = Inr (pid, oid, JStr digest, cd, cart, amount)"
    and "generatedSignature rt env oid pid = Inr digest"
    and "cartItemsHtml rt cart = Inr block"
    and "mailOptions rt env cd amount pid block = Inr m1"
    and "adminMailOptions rt env cd amount pid block = Inr m2"
  shows "payment_success rt env tr b =
           ([(m1, tr [] m1), (m2, tr [m1] m2)], json (JObj [(''success'', JBool True)]))"
  using assms by (simp add: payment_success_def)

text \<open>
  C9. With a matching signature and an amount that is no number (a string, absent, or
  any other value), \<open>toFixed\<close> throws a TypeError while the customer message is being
  built, at the latest: no send is attempted and the answer is 500 with
  \<open>success: false\<close>.
\<close>

theorem non_number_amount_gives_500_without_mail:
  assumes "payment_fields req_body =
             Inr (razorpayPaymentId, razorpayOrderId, razorpaySignature,
                  customerDetails, cartItems, amount)"
    and "generatedSignature rt env razorpayOrderId razorpayPaymentId = Inr digest"
    and "razorpaySignature = JStr digest"
    and "\<forall>n. amount \<noteq> JNum n"
  shows "(\<exists>f. toFixed2 rt amount = Inl (TypeError f))
         \<and> fst (payment_success rt env transporter req_body) = []
         \<and> status (snd (payment_success rt env transporter req_body)) = 500
         \<and> get_field (body (snd (payment_success rt env transporter req_body))) ''success'' =
             Inr (JBool False)"
proof -
  obtain f where f: "toFixed2 rt amount = Inl (TypeError f)"
    using toFixed2_non_number [OF assms(4)] by blast
  have no_mail: "\<exists>e. mailOptions rt env customerDetails amount razorpayPaymentId ch = Inl e" for ch
    using mailOptions_needs_number [OF f] .
  have "\<exists>e. payment_success rt env transporter req_body = ([], verification_failed rt e)"
  proof (cases "cartItemsHtml rt cartItems")
    case (Inl e)
    then show ?thesis
      using assms(1-3) by (auto simp: payment_success_def)
  next
    case (Inr ch)
    obtain e where "mailOptions rt env customerDetails amount razorpayPaymentId ch = Inl e"
      using no_mail by blast
    with Inr show ?thesis
      using assms(1-3) by (auto simp: payment_success_def)
  qed
  then obtain e where "payment_success rt env transporter req_body = ([], verification_failed rt e)"
    by blast
  then show ?thesis
    using f by (auto simp: verification_failed_def status_json_def)
qed

theorem non_number_amount_gives_500_without_mail_witness:
  "fst (payment_success example_runtime example_env always_sent
          (example_payment (JStr example_digest) JUndefined (JStr ''500''))) = []
   \<and> status (snd (payment_success example_runtime example_env always_sent
          (example_payment (JStr example_digest) JUndefined (JStr ''500'')))) = 500"
proof -
  have "\<forall>n. (JStr ''500'' :: string jsval) \<noteq> JNum n"
    by simp
  from non_number_amount_gives_500_without_mail
    [OF example_payment_fields example_generatedSignature refl this]
  show ?thesis
    by blast
qed

text \<open>
  C3, as stated, at a concrete request: the signature matches and the amount is the
  string \<open>"500"\<close>; the answer is 500, not 200.
\<close>

theorem matching_signature_not_always_200:
  "signature_decision example_runtime example_env
      (example_payment (JStr example_digest) JUndefined (JStr ''500'')) = Inr True
   \<and> status (snd (payment_success example_runtime example_env always_sent
        (example_payment (JStr example_digest) JUndefined (JStr ''500'')))) = 500"
proof -
  have "signature_decision example_runtime example_env
      (example_payment (JStr example_digest) JUndefined (JStr ''500'')) = Inr True"
    by (simp add: signature_decision_def example_payment_fields example_generatedSignature)
  moreover have "mailOptions example_runtime example_env example_customer (JStr ''500'')
      (JStr ''pay_1'') '''' = Inl (TypeError (NotAFunction ''toFixed''))"
    by (simp add: mailOptions_def example_customer_def)
  ultimately show ?thesis
    by (simp add: payment_success_def example_payment_fields example_generatedSignature
          example_cart_empty)
qed

text \<open>
  C3, amended. When the signature matches and the cart block and the two messages are
  built without an exception, the handler hands the customer message and then the admin
  message to the transport, whatever the transport answers to either, and responds 200
  with \<open>{success: true}\<close>.
\<close>

theorem sends_isolated_from_response:
  assumes "payment_fields req_body =
             Inr (razorpayPaymentId, razorpayOrderId, razorpaySignature,
                  customerDetails, cartItems, amount)"
    and "generatedSignature rt env razorpayOrderId razorpayPaymentId = Inr digest"
    and "razorpaySignature = JStr digest"
    and "cartItemsHtml rt cartItems = Inr cartHtml"
    and "mailOptions rt env customerDetails amount razorpayPaymentId cartHtml = Inr customer_mail"
    and "adminMailOptions rt env customerDetails amount razorpayPaymentId cartHtml = Inr admin_mail"
  shows "payment_success rt env transporter req_body =
           ([(customer_mail, transporter [] customer_mail),
             (admin_mail, transporter [customer_mail] admin_mail)],
            \<lparr>status = 200, body = JObj [(''success'', JBool True)]\<rparr>)"
  using payment_success_built [of req_body, OF _ assms(2,4,5,6)] assms(1,3)
  by (simp add: json_def)

theorem sends_isolated_from_response_witness:
  "map snd (fst (payment_success example_runtime example_env always_rejected
          (example_payment (JStr example_digest) JUndefined (JNum ''500'')))) =
     [Some (JStr ''connect ECONNREFUSED''), Some (JStr ''connect ECONNREFUSED'')]
   \<and> snd (payment_success example_runtime example_env always_rejected
          (example_payment (JStr example_digest) JUndefined (JNum ''500''))) =
     \<lparr>status = 200, body = JObj [(''success'', JBool True)]\<rparr>"
proof -
  obtain m1 where m1: "mailOptions example_runtime example_env example_customer (JNum ''500'')
          (JStr ''pay_1'') '''' = Inr m1"
    using example_mailOptions by blast
  obtain m2 where m2: "adminMailOptions example_runtime example_env example_customer (JNum ''500'')
          (JStr ''pay_1'') '''' = Inr m2"
    using example_adminMailOptions by blast
  from sends_isolated_from_response
    [OF example_payment_fields example_generatedSignature refl example_cart_empty m1 m2,
     of always_rejected]
  show ?thesis
    by (simp add: always_rejected_def)
qed

section \<open>The cart block\<close>

lemma items_block_not_empty: "items_block lines \<noteq> ''''"
  by (simp add: items_block_def)

lemma cartItemsHtml_absent [simp]:
  "cartItemsHtml rt JUndefined = Inr ''''"
  "cartItemsHtml rt JNull = Inr ''''"
  "cartItemsHtml rt (JArr []) = Inr ''''"
  by (simp_all add: cartItemsHtml_def cart_guard_def)

lemma cartItemsHtml_items:
  "items \<noteq> [] \<Longrightarrow>
     cartItemsHtml rt (JArr items) = bind (items_html rt items) (\<lambda>lines. Inr (items_block lines))"
  by (simp add: cartItemsHtml_def cart_guard_def)

lemma cartItemsHtml_empty_iff:
  "cartItemsHtml rt cart = Inr block \<Longrightarrow>
     (block \<noteq> '''' \<longleftrightarrow> (\<exists>items. cart = JArr items \<and> items \<noteq> []))"
  by (auto simp: cartItemsHtml_def cart_guard_def bind_eq_Inr items_block_not_empty
           split: if_splits jsval.splits option.splits)

lemma item_html_form:
  \<open>item_html rt item = Inr l \<Longrightarrow>
     \<exists>label price quantity.
       l = ''\<newline>'' @
           ''            <li>\<newline>'' @
           ''              <strong>'' @ label @ ''</strong> - \<newline>'' @
           ''              '' @ [CHR 0xE2, CHR 0x82, CHR 0xB9] @ price @ '' '' @ quantity @
           ''\<newline>'' @
           ''            </li>\<newline>'' @
           ''          ''\<close>
  by (fastforce simp: item_html_def rupee_def bind_eq_Inr)

lemma items_html_lines:
  "items_html rt items = Inr lines \<Longrightarrow>
     \<exists>ls. length ls = length items \<and> lines = concat ls \<and>
          (\<forall>l \<in> set ls. \<exists>item \<in> set items. item_html rt item = Inr l)"
proof (induction items arbitrary: lines)
  case Nil
  then show ?case by simp
next
  case (Cons item items)
  from Cons.prems obtain l r where l: "item_html rt item = Inr l"
    and r: "items_html rt items = Inr r" and lines: "lines = l @ r"
    by (auto split: sum.splits)
  from Cons.IH [OF r] obtain ls where ls: "length ls = length items" "r = concat ls"
    "\<forall>l \<in> set ls. \<exists>item \<in> set items. item_html rt item = Inr l"
    by blast
  have "length (l # ls) = length (item # items)" "lines = concat (l # ls)"
    "\<forall>x \<in> set (l # ls). \<exists>i \<in> set (item # items). item_html rt i = Inr x"
    using l ls lines by auto
  then show ?case by blast
qed

lemma customer_html_ends:
  \<open>suffix
     (''            <p><strong>Transaction ID:</strong> '' @
      p @
      ''</p>\<newline>'' @
      ''            '' @
      block @
      ''\<newline>'' @
      ''          </div>\<newline>'' @
      ''          <p>Mrs. Shereen will contact you within 24 hours on your provided phone number to schedule your session.</p>\<newline>'' @
      ''          <p>Warm regards,<br>The Mrs. Shereen Life Coaching Team</p>\<newline>'' @
      ''        </div>\<newline>'' @
      ''      '')
     (customer_html f a p block)\<close>
  unfolding customer_html_def
  by (rule suffix_order.refl | rule suffix_appendI)+

lemma admin_html_ends:
  \<open>suffix
     (''            <p><strong>Transaction ID:</strong> '' @
      p @
      ''</p>\<newline>'' @
      ''            '' @
      block @
      ''\<newline>'' @
      ''          </div>\<newline>'' @
      ''          <p>Please contact the customer within 24 hours to schedule their session.</p>\<newline>'' @
      ''        </div>\<newline>'' @
      ''      '')
     (admin_html f e ph a p block)\<close>
  unfolding admin_html_def
  by (rule suffix_order.refl | rule suffix_appendI)+

lemma sublist_later: "sublist x ys \<Longrightarrow> sublist x (ps @ ys)"
proof -
  assume "sublist x ys"
  then obtain a b where "ys = a @ x @ b"
    by (auto simp: sublist_def)
  then have "ps @ ys = (ps @ a) @ x @ b"
    by simp
  then show ?thesis
    unfolding sublist_def by blast
qed

lemma customer_html_name:
  "sublist f (customer_html f a p block)"
  unfolding customer_html_def
  by (rule sublist_append_rightI | rule sublist_later)+

lemma payment_success_200:
  assumes "status (snd (payment_success rt env tr b)) = 200"
  shows "\<exists>pid oid digest cd cart amount block m1 m2.
           payment_fields b = Inr (pid, oid, JStr digest, cd, cart, amount) \<and>
           generatedSignature rt env oid pid = Inr digest \<and>
           cartItemsHtml rt cart = Inr block \<and>
           mailOptions rt env cd amount pid block = Inr m1 \<and>
           adminMailOptions rt env cd amount pid block = Inr m2 \<and>
           fst (payment_success rt env tr b) = [(m1, tr [] m1), (m2, tr [m1] m2)]"
  using assms
  by (auto simp: payment_success_def Let_def split: sum.splits if_splits)

lemma mailOptions_html:
  "mailOptions rt env cd amount pid block = Inr m \<Longrightarrow>
     \<exists>f a p. toFixed2 rt amount = Inr a \<and> to_string rt pid = Inr p \<and>
             html m = customer_html f a p block"
  by (fastforce simp: mailOptions_def bind_eq_Inr)

lemma adminMailOptions_html:
  "adminMailOptions rt env cd amount pid block = Inr m \<Longrightarrow>
     \<exists>f e ph a p. toFixed2 rt amount = Inr a \<and> to_string rt pid = Inr p \<and>
             html m = admin_html f e ph a p block"
  by (fastforce simp: adminMailOptions_def bind_eq_Inr)

lemma example_section_generated:
  "cartItemsHtml example_runtime (JArr [example_item]) = Inr example_section"
  by (simp add: cartItemsHtml_def cart_guard_def item_html_def items_block_def rupee_def
        example_item_def example_runtime_def example_section_def)

lemma example_injected_fields:
  "payment_fields example_injected_payment =
     Inr (JStr ''pay_1'', JStr ''order_1'', JStr example_digest,
          JObj [(''fullName'', JStr example_section), (''email'', JStr ''asha@example.org''),
                (''phone'', JStr ''555'')],
          JArr [], JNum ''500'')"
  by (simp add: payment_fields_def example_injected_payment_def)

text \<open>
  C6, as stated, at a concrete request: the cart is the empty array, so the cart block
  is the empty string, and the customer's name is the text of the itemized section that
  a cart of one item produces. The request is answered 200, and the HTML of the customer
  message contains that section: the name is inserted as it is.
\<close>

theorem empty_cart_message_contains_section:
  "cartItemsHtml example_runtime (JArr []) = Inr ''''
   \<and> cartItemsHtml example_runtime (JArr [example_item]) = Inr example_section
   \<and> status (snd (payment_success example_runtime example_env always_sent
        example_injected_payment)) = 200
   \<and> sublist example_section
        (html (fst (hd (fst (payment_success example_runtime example_env always_sent
           example_injected_payment)))))"
proof -
  let ?cd = "JObj [(''fullName'', JStr example_section), (''email'', JStr ''asha@example.org''),
                (''phone'', JStr ''555'')] :: string jsval"
  have m1: "mailOptions example_runtime example_env ?cd (JNum ''500'') (JStr ''pay_1'') '''' =
      Inr \<lparr>from_addr = ''\"Mrs. Shereen Life Coaching\" <'' @
                env_string example_env ''EMAIL_USER'' @ ''>'',
           to_addr = JStr ''asha@example.org'',
           subject = ''Booking Confirmation - Mrs. Shereen Life Coaching'',
           html = customer_html example_section ''500.00'' ''pay_1'' ''''\<rparr>"
    by (simp add: mailOptions_def example_runtime_def)
  obtain m2 where m2: "adminMailOptions example_runtime example_env ?cd (JNum ''500'')
      (JStr ''pay_1'') '''' = Inr m2"
    by (simp add: adminMailOptions_def example_runtime_def)
  have empty: "cartItemsHtml example_runtime (JArr []) = Inr ''''"
    by simp
  note run = payment_success_built
    [OF example_injected_fields example_generatedSignature empty m1 m2, of always_sent]
  have "html (fst (hd (fst (payment_success example_runtime example_env always_sent
           example_injected_payment)))) = customer_html example_section ''500.00'' ''pay_1'' ''''"
    by (simp add: run)
  moreover have "status (snd (payment_success example_runtime example_env always_sent
        example_injected_payment)) = 200"
    by (simp add: run)
  ultimately show ?thesis
    using empty example_section_generated customer_html_name by simp
qed

text \<open>
  C6, amended. For every request the payment handler answers 200, the customer message
  and then the admin message are handed to the transport, and each ends with the
  transaction line, the cart block \<open>cartItemsHtml\<close> and the closing text of its
  template. The block is not the empty string exactly when the cart items are a
  non-empty array, and then it is the heading and the list around one entry for each
  item; it is the empty string when the cart items are absent, null or the empty array.
  Nothing is said of the text before the transaction line, where the customer's name,
  email and phone are inserted as they are.
\<close>

theorem cart_block_iff_items:
  assumes \<open>payment_fields req_body =
             Inr (razorpayPaymentId, razorpayOrderId, razorpaySignature,
                  customerDetails, cartItems, amount)\<close>
    and \<open>status (snd (payment_success rt env transporter req_body)) = 200\<close>
  shows \<open>\<exists>block p m1 m2.
           cartItemsHtml rt cartItems = Inr block
         \<and> to_string rt razorpayPaymentId = Inr p
         \<and> map fst (fst (payment_success rt env transporter req_body)) = [m1, m2]
         \<and> suffix
             (''            <p><strong>Transaction ID:</strong> '' @
              p @
              ''</p>\<newline>'' @
              ''            '' @
              block @
              ''\<newline>'' @
              ''          </div>\<newline>'' @
              ''          <p>Mrs. Shereen will contact you within 24 hours on your provided phone number to schedule your session.</p>\<newline>'' @
              ''          <p>Warm regards,<br>The Mrs. Shereen Life Coaching Team</p>\<newline>'' @
              ''        </div>\<newline>'' @
              ''      '')
             (html m1)
         \<and> suffix
             (''            <p><strong>Transaction ID:</strong> '' @
              p @
              ''</p>\<newline>'' @
              ''            '' @
              block @
              ''\<newline>'' @
              ''          </div>\<newline>'' @
              ''          <p>Please contact the customer within 24 hours to schedule their session.</p>\<newline>'' @
              ''        </div>\<newline>'' @
              ''      '')
             (html m2)
         \<and> (block \<noteq> '''' \<longleftrightarrow> (\<exists>items. cartItems = JArr items \<and> items \<noteq> []))
         \<and> (cartItems = JUndefined \<or> cartItems = JNull \<or> cartItems = JArr [] \<longrightarrow>
              block = '''')
         \<and> (\<forall>items. cartItems = JArr items \<and> items \<noteq> [] \<longrightarrow>
              (\<exists>ls. length ls = length items
                 \<and> (\<forall>l \<in> set ls. \<exists>label price quantity.
                       l = ''\<newline>'' @
                           ''            <li>\<newline>'' @
                           ''              <strong>'' @ label @ ''</strong> - \<newline>'' @
                           ''              '' @ [CHR 0xE2, CHR 0x82, CHR 0xB9] @ price @
                           '' '' @ quantity @
                           ''\<newline>'' @
                           ''            </li>\<newline>'' @
                           ''          '')
                 \<and> block =
                     ''\<newline>'' @
                     ''        <h3 style="margin-top: 20px; color: #8e44ad;">Items Purchased:</h3>\<newline>'' @
                     ''        <ul style="padding-left: 20px;">\<newline>'' @
                     ''          '' @
                     concat ls @
                     ''\<newline>'' @
                     ''        </ul>\<newline>'' @
                     ''      ''))\<close>
proof -
  from payment_success_200 [OF assms(2)] assms(1)
  obtain digest block m1 m2 where
    block: "cartItemsHtml rt cartItems = Inr block"
    and m1: "mailOptions rt env customerDetails amount razorpayPaymentId block = Inr m1"
    and m2: "adminMailOptions rt env customerDetails amount razorpayPaymentId block = Inr m2"
    and sends: "fst (payment_success rt env transporter req_body) =
      [(m1, transporter [] m1), (m2, transporter [m1] m2)]"
    by auto
  obtain f a p where p: "to_string rt razorpayPaymentId = Inr p"
    and h1: "html m1 = customer_html f a p block"
    using mailOptions_html [OF m1] by blast
  obtain f' e ph a' where h2: "html m2 = admin_html f' e ph a' p block"
    using adminMailOptions_html [OF m2] p by auto
  let ?entry = \<open>\<lambda>l. \<exists>label price quantity.
                       l = ''\<newline>'' @
                           ''            <li>\<newline>'' @
                           ''              <strong>'' @ label @ ''</strong> - \<newline>'' @
                           ''              '' @ [CHR 0xE2, CHR 0x82, CHR 0xB9] @ price @
                           '' '' @ quantity @
                           ''\<newline>'' @
                           ''            </li>\<newline>'' @
                           ''          ''\<close>
  let ?section = \<open>\<lambda>lines.
                     ''\<newline>'' @
                     ''        <h3 style="margin-top: 20px; color: #8e44ad;">Items Purchased:</h3>\<newline>'' @
                     ''        <ul style="padding-left: 20px;">\<newline>'' @
                     ''          '' @
                     lines @
                     ''\<newline>'' @
                     ''        </ul>\<newline>'' @
                     ''      ''\<close>
  have items: "\<exists>ls. length ls = length items \<and> (\<forall>l \<in> set ls. ?entry l) \<and>
      block = ?section (concat ls)"
    if c: "cartItems = JArr items" and n: "items \<noteq> []" for items
  proof -
    from block c n obtain lines where lines: "items_html rt items = Inr lines"
      and b: "block = items_block lines"
      by (auto simp: cartItemsHtml_items bind_eq_Inr)
    from items_html_lines [OF lines] obtain ls where len: "length ls = length items"
      and cat: "lines = concat ls"
      and each: "\<forall>l \<in> set ls. \<exists>item \<in> set items. item_html rt item = Inr l"
      by blast
    have entries: "\<forall>l \<in> set ls. ?entry l"
    proof
      fix l
      assume "l \<in> set ls"
      with each obtain item where "item_html rt item = Inr l"
        by blast
      then show "?entry l"
        by (rule item_html_form)
    qed
    have "block = ?section (concat ls)"
      unfolding b cat items_block_def by (rule refl)
    with len entries show ?thesis
      by (intro exI [of _ ls] conjI)
  qed
  have absent: "cartItems = JUndefined \<or> cartItems = JNull \<or> cartItems = JArr [] \<longrightarrow>
      block = ''''"
    using block by auto
  have sent: "map fst (fst (payment_success rt env transporter req_body)) = [m1, m2]"
    by (simp add: sends)
  have shape: "\<forall>items. cartItems = JArr items \<and> items \<noteq> [] \<longrightarrow>
      (\<exists>ls. length ls = length items \<and> (\<forall>l \<in> set ls. ?entry l) \<and>
         block = ?section (concat ls))"
  proof (intro allI impI)
    fix items
    assume "cartItems = JArr items \<and> items \<noteq> []"
    then show "\<exists>ls. length ls = length items \<and> (\<forall>l \<in> set ls. ?entry l) \<and>
         block = ?section (concat ls)"
      using items by (elim conjE)
  qed
  note ends1 = customer_html_ends [of p block f a, folded h1]
  note ends2 = admin_html_ends [of p block f' e ph a', folded h2]
  show ?thesis
    apply (rule exI [of _ block], rule exI [of _ p], rule exI [of _ m1], rule exI [of _ m2])
    apply (intro conjI)
           apply (rule block)
          apply (rule p)
         apply (rule sent)
        apply (rule ends1)
       apply (rule ends2)
      apply (rule cartItemsHtml_empty_iff [OF block])
     apply (rule absent)
    apply (rule shape)
    done
qed

theorem cart_block_iff_items_witness:
  \<open>suffix
     (''            <p><strong>Transaction ID:</strong> '' @
      ''pay_1'' @
      ''</p>\<newline>'' @
      ''            '' @
      example_section @
      ''\<newline>'' @
      ''          </div>\<newline>'' @
      ''          <p>Mrs. Shereen will contact you within 24 hours on your provided phone number to schedule your session.</p>\<newline>'' @
      ''          <p>Warm regards,<br>The Mrs. Shereen Life Coaching Team</p>\<newline>'' @
      ''        </div>\<newline>'' @
      ''      '')
     (html (fst (hd (fst (payment_success example_runtime example_env always_sent
        (example_payment (JStr example_digest) (JArr [example_item]) (JNum ''500'')))))))\<close>
proof -
  let ?b = "example_payment (JStr example_digest) (JArr [example_item]) (JNum ''500'')"
  obtain m1 where m1: "mailOptions example_runtime example_env example_customer (JNum ''500'')
          (JStr ''pay_1'') example_section = Inr m1"
    using example_mailOptions by blast
  obtain m2 where m2: "adminMailOptions example_runtime example_env example_customer (JNum ''500'')
          (JStr ''pay_1'') example_section = Inr m2"
    using example_adminMailOptions by blast
  note run = payment_success_built
    [OF example_payment_fields example_generatedSignature example_section_generated m1 m2,
     of always_sent]
  have ok: "status (snd (payment_success example_runtime example_env always_sent ?b)) = 200"
    by (simp add: run)
  have first: "fst (hd (fst (payment_success example_runtime example_env always_sent ?b))) = m1"
    by (simp add: run)
  from cart_block_iff_items [OF example_payment_fields ok]
  obtain block p n1 n2 where
    block: "cartItemsHtml example_runtime (JArr [example_item]) = Inr block"
    and p: "to_string example_runtime (JStr ''pay_1'') = Inr p"
    and sent: "map fst (fst (payment_success example_runtime example_env always_sent ?b)) =
      [n1, n2]"
    and ends: \<open>suffix
             (''            <p><strong>Transaction ID:</strong> '' @
              p @
              ''</p>\<newline>'' @
              ''            '' @
              block @
              ''\<newline>'' @
              ''          </div>\<newline>'' @
              ''          <p>Mrs. Shereen will contact you within 24 hours on your provided phone number to schedule your session.</p>\<newline>'' @
              ''          <p>Warm regards,<br>The Mrs. Shereen Life Coaching Team</p>\<newline>'' @
              ''        </div>\<newline>'' @
              ''      '')
             (html n1)\<close>
    by (elim exE conjE) (rule that)
  have "block = example_section"
    using block example_section_generated by simp
  moreover have "p = ''pay_1''"
    using p by simp
  moreover have "n1 = m1"
    using sent by (simp add: run)
  ultimately show ?thesis
    using ends unfolding first by (simp only:)
qed

section \<open>The contact form\<close>

lemma contact_cases:
  assumes "contact_fields b = Inr (name, email, subj, message)"
    and "contactMailOptions rt env name email subj message = Inr a"
    and "userConfirmationOptions rt env name email subj message = Inr u"
  shows "contact rt env tr b =
     (case tr [] a of
        Some m \<Rightarrow> ([(a, Some m)], contact_failed rt (Rejected m))
      | None \<Rightarrow>
          (case tr [a] u of
             Some m \<Rightarrow> ([(a, None), (u, Some m)], contact_failed rt (Rejected m))
           | None \<Rightarrow>
               ([(a, None), (u, None)],
                json (JObj [(''success'', JBool True),
                            (''message'', JStr ''Message sent successfully!'')]))))"
  using assms by (simp add: contact_def)




lemma example_contact_fields:
  "contact_fields example_contact =
     Inr (JStr ''Asha'', JStr ''asha@example.org'', JStr ''Hello'', JStr ''one\<newline>two'')"
  by (simp add: contact_fields_def example_contact_def)




lemma split_on_nonempty: "split_on c s \<noteq> []"
  by (induction s) auto

lemma joined_Cons_head: "joined sep ((x # l) # ls) = x # joined sep (l # ls)"
  by (cases ls) auto

lemma joined_Nil_head: "ls \<noteq> [] \<Longrightarrow> joined sep ([] # ls) = sep @ joined sep ls"
  by (cases ls) auto

lemma joined_split_on: "joined [c] (split_on c s) = s"
proof (induction s)
  case Nil
  show ?case by simp
next
  case (Cons x xs)
  obtain l ls where sp: "split_on c xs = l # ls"
    using split_on_nonempty [of c xs] by (cases "split_on c xs") auto
  show ?case
  proof (cases "x = c")
    case True
    then show ?thesis
      using Cons.IH by (simp add: joined_Nil_head split_on_nonempty)
  next
    case False
    then show ?thesis
      using Cons.IH sp by (simp add: joined_Cons_head)
  qed
qed

lemma split_on_free: "l \<in> set (split_on c s) \<Longrightarrow> c \<notin> set l"
proof (induction s arbitrary: l)
  case Nil
  then show ?case by simp
next
  case (Cons x xs)
  obtain h t where sp: "split_on c xs = h # t"
    using split_on_nonempty [of c xs] by (cases "split_on c xs") auto
  show ?case
  proof (cases "x = c")
    case True
    with Cons show ?thesis by auto
  next
    case False
    with Cons.prems sp have "l = x # h \<or> l \<in> set t" by auto
    then show ?thesis
      using Cons.IH [of h] Cons.IH [of l] sp False by auto
  qed
qed

lemma replace_newlines_split:
  "replace_newlines s = joined ''<br>'' (split_on (CHR 0x0A) s)"
proof (induction s)
  case Nil
  show ?case by simp
next
  case (Cons x xs)
  obtain l ls where sp: "split_on (CHR 0x0A) xs = l # ls"
    using split_on_nonempty [of "CHR 0x0A" xs] by (cases "split_on (CHR 0x0A) xs") auto
  show ?case
  proof (cases "x = CHR 0x0A")
    case True
    then show ?thesis
      using Cons.IH by (simp add: joined_Nil_head split_on_nonempty)
  next
    case False
    then show ?thesis
      using Cons.IH sp by (simp add: joined_Cons_head)
  qed
qed

lemma contact_html_ends:
  \<open>suffix
     (''            <div style="background-color: white; padding: 15px; border-radius: 5px;">\<newline>'' @
      ''              '' @
      messageHtml @
      ''\<newline>'' @
      ''            </div>\<newline>'' @
      ''          </div>\<newline>'' @
      ''        </div>\<newline>'' @
      ''      '')
     (contact_html n e s messageHtml)\<close>
  unfolding contact_html_def
  by (rule suffix_order.refl | rule suffix_appendI)+

lemma confirmation_html_ends:
  \<open>suffix
     (''            <div style="background-color: white; padding: 15px; border-radius: 5px;">\<newline>'' @
      ''              '' @
      messageHtml @
      ''\<newline>'' @
      ''            </div>\<newline>'' @
      ''          </div>\<newline>'' @
      ''          <p>Warm regards,<br>Mrs. Shereen</p>\<newline>'' @
      ''        </div>\<newline>'' @
      ''      '')
     (confirmation_html n s messageHtml)\<close>
  unfolding confirmation_html_def
  by (rule suffix_order.refl | rule suffix_appendI)+

lemma contactMailOptions_built:
  assumes "to_string rt name = Inr n" and "to_string rt email = Inr e"
    and "to_string rt subj = Inr s"
  shows "\<exists>a. contactMailOptions rt env name email subj (JStr message) = Inr a \<and>
           to_addr a = env_value env ''EMAIL_USER'' \<and>
           html a = contact_html n e s (replace_newlines message)"
  using assms by (simp add: contactMailOptions_def)

lemma userConfirmationOptions_built:
  assumes "to_string rt name = Inr n" and "to_string rt subj = Inr s"
  shows "\<exists>u. userConfirmationOptions rt env name email subj (JStr message) = Inr u \<and>
           to_addr u = email \<and>
           html u = confirmation_html n s (replace_newlines message)"
  using assms by (simp add: userConfirmationOptions_def)

lemma replace_newlines_free: "CHR 0x0A \<notin> set (replace_newlines s)"
  by (induction s) auto

text \<open>
  C10. For a request whose message is a string (and whose name, email and subject are
  converted to strings without an exception), the handler builds the admin notification,
  addressed to the configured sender, and the user confirmation, addressed to the
  request's email; it hands the admin notification to the transport, and the user
  confirmation after it when that send resolves. Each of the two ends with the message
  box of its template, and in the box stand the lines of the message (the message split
  at its line feeds) joined by \<open><br>\<close>: every line feed is replaced by the tag, and the
  lines themselves, which contain no line feed, stand unchanged; joined by line feeds
  again they are the message.
\<close>

theorem message_line_feeds_become_br:
  assumes \<open>contact_fields req_body = Inr (name, email, subj, JStr message)\<close>
    and \<open>to_string rt name = Inr n\<close>
    and \<open>to_string rt email = Inr e\<close>
    and \<open>to_string rt subj = Inr s\<close>
  shows \<open>\<exists>admin_mail user_mail.
           (map fst (fst (contact rt env transporter req_body)) = [admin_mail] \<or>
            map fst (fst (contact rt env transporter req_body)) = [admin_mail, user_mail])
         \<and> contactMailOptions rt env name email subj (JStr message) = Inr admin_mail
         \<and> userConfirmationOptions rt env name email subj (JStr message) = Inr user_mail
         \<and> to_addr admin_mail = env_value env ''EMAIL_USER''
         \<and> to_addr user_mail = email
         \<and> suffix
             (''            <div style="background-color: white; padding: 15px; border-radius: 5px;">\<newline>'' @
              ''              '' @
              joined ''<br>'' (split_on (CHR 0x0A) message) @
              ''\<newline>'' @
              ''            </div>\<newline>'' @
              ''          </div>\<newline>'' @
              ''        </div>\<newline>'' @
              ''      '')
             (html admin_mail)
         \<and> suffix
             (''            <div style="background-color: white; padding: 15px; border-radius: 5px;">\<newline>'' @
              ''              '' @
              joined ''<br>'' (split_on (CHR 0x0A) message) @
              ''\<newline>'' @
              ''            </div>\<newline>'' @
              ''          </div>\<newline>'' @
              ''          <p>Warm regards,<br>Mrs. Shereen</p>\<newline>'' @
              ''        </div>\<newline>'' @
              ''      '')
             (html user_mail)
         \<and> joined [CHR 0x0A] (split_on (CHR 0x0A) message) = message
         \<and> (\<forall>l \<in> set (split_on (CHR 0x0A) message). CHR 0x0A \<notin> set l)
         \<and> CHR 0x0A \<notin> set (joined ''<br>'' (split_on (CHR 0x0A) message))\<close>
proof -
  obtain a where a: "contactMailOptions rt env name email subj (JStr message) = Inr a"
    and to_a: "to_addr a = env_value env ''EMAIL_USER''"
    and html_a: "html a = contact_html n e s (replace_newlines message)"
    using contactMailOptions_built [OF assms(2,3,4)] by blast
  obtain u where u: "userConfirmationOptions rt env name email subj (JStr message) = Inr u"
    and to_u: "to_addr u = email"
    and html_u: "html u = confirmation_html n s (replace_newlines message)"
    using userConfirmationOptions_built [OF assms(2,4)] by blast
  have sent: "map fst (fst (contact rt env transporter req_body)) = [a] \<or>
      map fst (fst (contact rt env transporter req_body)) = [a, u]"
    using contact_cases [OF assms(1) a u, of transporter]
    by (auto split: option.splits)
  note ends_a = contact_html_ends [of "replace_newlines message" n e s, folded html_a,
      unfolded replace_newlines_split]
  note ends_u = confirmation_html_ends [of "replace_newlines message" n s, folded html_u,
      unfolded replace_newlines_split]
  have lines: "\<forall>l \<in> set (split_on (CHR 0x0A) message). CHR 0x0A \<notin> set l"
    using split_on_free by blast
  note free = replace_newlines_free [of message, unfolded replace_newlines_split]
  show ?thesis
    apply (rule exI [of _ a], rule exI [of _ u])
    apply (intro conjI)
             apply (rule sent)
            apply (rule a)
           apply (rule u)
          apply (rule to_a)
         apply (rule to_u)
        apply (rule ends_a)
       apply (rule ends_u)
      apply (rule joined_split_on)
     apply (rule lines)
    apply (rule free)
    done
qed

theorem message_line_feeds_become_br_witness:
  \<open>length (fst (contact example_runtime example_env always_sent example_contact)) = 2
   \<and> suffix
       (''            <div style="background-color: white; padding: 15px; border-radius: 5px;">\<newline>'' @
        ''              '' @
        ''one<br>two'' @
        ''\<newline>'' @
        ''            </div>\<newline>'' @
        ''          </div>\<newline>'' @
        ''        </div>\<newline>'' @
        ''      '')
       (html (fst (hd (fst (contact example_runtime example_env always_sent example_contact)))))
   \<and> suffix
       (''            <div style="background-color: white; padding: 15px; border-radius: 5px;">\<newline>'' @
        ''              '' @
        ''one<br>two'' @
        ''\<newline>'' @
        ''            </div>\<newline>'' @
        ''          </div>\<newline>'' @
        ''          <p>Warm regards,<br>Mrs. Shereen</p>\<newline>'' @
        ''        </div>\<newline>'' @
        ''      '')
       (html (fst (fst (contact example_runtime example_env always_sent example_contact) ! 1)))\<close>
proof -
  have j: "joined ''<br>'' (split_on (CHR 0x0A) ''one\<newline>two'') = ''one<br>two''"
    by simp
  have strs: "to_string example_runtime (JStr ''Asha'') = Inr ''Asha''"
    "to_string example_runtime (JStr ''asha@example.org'') = Inr ''asha@example.org''"
    "to_string example_runtime (JStr ''Hello'') = Inr ''Hello''"
    by simp_all
  from message_line_feeds_become_br
    [OF example_contact_fields strs, of example_env always_sent]
  obtain a u where
    a: "contactMailOptions example_runtime example_env (JStr ''Asha'')
          (JStr ''asha@example.org'') (JStr ''Hello'') (JStr ''one\<newline>two'') = Inr a"
    and u: "userConfirmationOptions example_runtime example_env (JStr ''Asha'')
          (JStr ''asha@example.org'') (JStr ''Hello'') (JStr ''one\<newline>two'') = Inr u"
    and ends_a: \<open>suffix
             (''            <div style="background-color: white; padding: 15px; border-radius: 5px;">\<newline>'' @
              ''              '' @
              joined ''<br>'' (split_on (CHR 0x0A) ''one\<newline>two'') @
              ''\<newline>'' @
              ''            </div>\<newline>'' @
              ''          </div>\<newline>'' @
              ''        </div>\<newline>'' @
              ''      '')
             (html a)\<close>
    and ends_u: \<open>suffix
             (''            <div style="background-color: white; padding: 15px; border-radius: 5px;">\<newline>'' @
              ''              '' @
              joined ''<br>'' (split_on (CHR 0x0A) ''one\<newline>two'') @
              ''\<newline>'' @
              ''            </div>\<newline>'' @
              ''          </div>\<newline>'' @
              ''          <p>Warm regards,<br>Mrs. Shereen</p>\<newline>'' @
              ''        </div>\<newline>'' @
              ''      '')
             (html u)\<close>
    by (elim exE conjE) (rule that)
  have run: "fst (contact example_runtime example_env always_sent example_contact) =
      [(a, None), (u, None)]"
    using contact_cases [OF example_contact_fields a u, of always_sent]
    by (simp add: always_sent_def)
  show ?thesis
    using ends_a ends_u unfolding j run by simp
qed

section \<open>Order creation and startup\<close>

text \<open>
  C7, as stated, at a concrete request: amount, currency and receipt are supplied and
  there are no customer details. Reading the customer's name throws, the gateway is not
  called, and the answer is 500.
\<close>

theorem order_without_customer_not_forwarded:
  "create_order example_runtime example_gateway
     (JObj [(''amount'', JNum ''50000''), (''currency'', JStr ''INR''),
            (''receipt'', JStr ''rcpt_1'')]) =
     ([], \<lparr>status = 500,
           body = JObj [(''error'', JStr ''Failed to create order''),
                        (''details'', JStr ''TypeError'')]\<rparr>)"
  by (simp add: create_order_def status_json_def exn_message_def example_runtime_def)

text \<open>
  C7, amended. For a request whose customer details can be read (they are neither
  absent nor null), the handler calls the gateway once,
  with an options object holding exactly the supplied amount, currency and receipt and
  a notes block with the customer's full name, email and phone; and when the gateway
  answers with an order, the response is 200 with that order, unchanged, as its body.
\<close>

theorem order_forwarded_and_returned:
  assumes "get_field req_body ''amount'' = Inr amount"
    and "get_field req_body ''currency'' = Inr currency"
    and "get_field req_body ''receipt'' = Inr receipt"
    and "get_field req_body ''customerDetails'' = Inr customerDetails"
    and "get_field customerDetails ''fullName'' = Inr fullName"
    and "get_field customerDetails ''email'' = Inr email"
    and "get_field customerDetails ''phone'' = Inr phone"
  shows "fst (create_order rt gw req_body) =
           [JObj [(''amount'', amount), (''currency'', currency), (''receipt'', receipt),
                  (''notes'', JObj [(''customerName'', fullName),
                                    (''customerEmail'', email),
                                    (''customerPhone'', phone)])]]
         \<and> (\<forall>order.
               gw (JObj [(''amount'', amount), (''currency'', currency), (''receipt'', receipt),
                         (''notes'', JObj [(''customerName'', fullName),
                                           (''customerEmail'', email),
                                           (''customerPhone'', phone)])]) = Inr order \<and>
               order \<noteq> JUndefined \<and> order \<noteq> JNull \<longrightarrow>
               snd (create_order rt gw req_body) = \<lparr>status = 200, body = order\<rparr>)"
proof -
  from assms(1) have nn: "req_body \<noteq> JUndefined" "req_body \<noteq> JNull"
    using get_field_Inr_nonnullish by blast+
  obtain cart where cart: "get_field req_body ''cartItems'' = Inr cart"
    using get_field_total [OF nn] by blast
  let ?options = "JObj [(''amount'', amount), (''currency'', currency), (''receipt'', receipt),
                  (''notes'', JObj [(''customerName'', fullName),
                                    (''customerEmail'', email),
                                    (''customerPhone'', phone)])]"
  have calls: "fst (create_order rt gw req_body) = [?options]"
    using assms cart by (simp add: create_order_def Let_def split: sum.splits)
  have "snd (create_order rt gw req_body) = \<lparr>status = 200, body = order\<rparr>"
    if answer: "gw ?options = Inr order" and n1: "order \<noteq> JUndefined"
      and n2: "order \<noteq> JNull" for order
  proof -
    obtain i where "get_field order ''id'' = Inr i"
      using get_field_total [OF n1 n2] by blast
    then show ?thesis
      using assms cart answer by (simp add: create_order_def json_def)
  qed
  with calls show ?thesis
    by blast
qed

theorem order_forwarded_and_returned_witness:
  "create_order example_runtime example_gateway example_order_request =
     ([JObj [(''amount'', JNum ''50000''), (''currency'', JStr ''INR''),
             (''receipt'', JStr ''rcpt_1''),
             (''notes'', JObj [(''customerName'', JStr ''Asha''),
                               (''customerEmail'', JStr ''asha@example.org''),
                               (''customerPhone'', JStr ''555'')])]],
      \<lparr>status = 200,
       body = JObj [(''id'', JStr ''order_1''), (''entity'', JStr ''order''),
                    (''status'', JStr ''created'')]\<rparr>)"
proof -
  have "get_field example_order_request ''amount'' = Inr (JNum ''50000'')"
    "get_field example_order_request ''currency'' = Inr (JStr ''INR'')"
    "get_field example_order_request ''receipt'' = Inr (JStr ''rcpt_1'')"
    "get_field example_order_request ''customerDetails'' = Inr example_customer"
    "get_field example_customer ''fullName'' = Inr (JStr ''Asha'')"
    "get_field example_customer ''email'' = Inr (JStr ''asha@example.org'')"
    "get_field example_customer ''phone'' = Inr (JStr ''555'')"
    by (simp_all add: example_order_request_def example_customer_def)
  from order_forwarded_and_returned [OF this, of example_runtime example_gateway]
  show ?thesis
    by (simp add: example_gateway_def prod_eq_iff)
qed

text \<open>
  What the credential checks do, for every environment. If the gateway key id or the
  gateway secret is absent, module evaluation prints the error and ends in
  \<open>process.exit(1)\<close>, before any route is registered and before \<open>app.listen\<close>,
  whatever the host. If both are there and the mail account or the mail password is
  absent, the checks only print the warning and do not end the process; where
  \<open>import.meta.env\<close> is defined, evaluation then goes on to \<open>app.listen\<close>.
\<close>

lemma credential_checks_outcomes:
  "(env ''RAZORPAY_KEY_ID'' = None \<or> env ''RAZORPAY_SECRET'' = None \<longrightarrow>
      startup env meta_env = ([gateway_credentials_missing], Exited 1))
   \<and> (env_truthy env ''RAZORPAY_KEY_ID'' \<and> env_truthy env ''RAZORPAY_SECRET'' \<and>
       (env ''EMAIL_USER'' = None \<or> env ''EMAIL_PASSWORD'' = None) \<longrightarrow>
      credential_checks env = ([email_credentials_missing], None) \<and>
      startup env (Some vite_env) = ([email_credentials_missing], ListenCalled))"
  by (auto simp: startup_def credential_checks_def env_truthy_def split: option.splits)

text \<open>
  C8, at the failing input: the gateway credentials are there, the mail credentials are
  absent, and the host defines no \<open>import.meta.env\<close> (Node). The checks print the
  warning and do not end the process, as the claim says; but the process does not go on
  to serve: registering the first POST route reads \<open>import.meta.env.VITE_BACKEND_URL\<close>,
  which throws, and module evaluation ends there, before \<open>app.listen\<close>. The route
  registered just before it takes its path as a plain string.
\<close>

theorem mail_warning_then_uncaught_without_meta_env:
  "credential_checks example_env_without_mail = ([email_credentials_missing], None)
   \<and> startup example_env_without_mail None =
       ([email_credentials_missing], Uncaught (ReadOfNullish ''VITE_BACKEND_URL''))"
  by (simp add: startup_def credential_checks_def env_truthy_def example_env_without_mail_def)

theorem mail_warning_then_uncaught_without_meta_env_witness:
  "snd (startup example_env_without_mail None) \<noteq> ListenCalled"
  using mail_warning_then_uncaught_without_meta_env by simp

end
